theory Spec2Isabelle
  imports Main
begin

section \<open>Values, exceptions and the random source\<close>

text \<open>
  The program is \<^verbatim>\<open>Password_Generator.py\<close>: a class \<^verbatim>\<open>Password_Generator\<close> that keeps a
  dictionary of preferences and a character pool, and a class \<^verbatim>\<open>PasswordGUI\<close> whose button
  handler builds a password and appends it to a spreadsheet.

  Strings are \<^typ>\<open>string\<close>, one \<^typ>\<open>char\<close> per character: the model covers ASCII text.
  The values stored in the preferences dictionary are the ones the handler passes in:
  an integer for the length and truth values for the four check boxes.
\<close>

datatype pyval = PyInt int | PyBool bool

text \<open>Truth of a value in an \<^verbatim>\<open>if\<close>, and the number of rounds of \<^verbatim>\<open>for i in range(v)\<close>
  (a negative bound gives no round; \<^verbatim>\<open>True\<close> counts as 1).\<close>

fun truthy :: "pyval \<Rightarrow> bool" where
  "truthy (PyInt n) = (n \<noteq> 0)"
| "truthy (PyBool b) = b"

fun range_len :: "pyval \<Rightarrow> nat" where
  "range_len (PyInt n) = nat n"
| "range_len (PyBool b) = (if b then 1 else 0)"

text \<open>The exceptions that the modelled code can raise. \<open>ReadError\<close> is the failure of
  \<^verbatim>\<open>pd.read_excel\<close> on a file that is not a workbook: the condition that the
  specification calls IOError-class. Which Python exception carries it depends on the
  content of the file; the program catches none of them, so one value stands for all.\<close>

datatype py_error = KeyError string | IndexError | ReadError

text \<open>
  \<^verbatim>\<open>secrets.choice(seq)\<close> raises \<^verbatim>\<open>IndexError\<close> on an empty sequence and otherwise returns
  \<^verbatim>\<open>seq[randbelow(len(seq))]\<close>. The operating system's random source is a parameter of the
  model: \<open>ent k\<close> is the raw value that the \<open>k\<close>-th draw obtains, reduced below the bound.
  The state that is passed along is the number of draws made so far.
\<close>

type_synonym entropy = "nat \<Rightarrow> nat"

definition randbelow :: "entropy \<Rightarrow> nat \<Rightarrow> nat \<Rightarrow> nat \<times> nat" where
  "randbelow ent n drawn = (ent drawn mod n, Suc drawn)"

definition choice :: "entropy \<Rightarrow> 'a list \<Rightarrow> nat \<Rightarrow> (py_error + 'a) \<times> nat" where
  "choice ent seq drawn =
     (if length seq = 0 then (Inl IndexError, drawn)
      else (case randbelow ent (length seq) drawn of (i, drawn') \<Rightarrow> (Inr (seq ! i), drawn')))"

section \<open>The class \<open>Password_Generator\<close>\<close>

record generator =
  prefs :: "string \<rightharpoonup> pyval"
  pool :: string

definition init_generator :: generator where
  "init_generator = \<lparr>prefs = Map.empty, pool = ''''\<rparr>"

definition set_preferences ::
  "generator \<Rightarrow> int \<Rightarrow> bool \<Rightarrow> bool \<Rightarrow> bool \<Rightarrow> bool \<Rightarrow> generator" where
  "set_preferences g len lowercase uppercase numbers symbols =
     g\<lparr>prefs := (prefs g)(''length_input'' \<mapsto> PyInt len,
                            ''symbols'' \<mapsto> PyBool symbols,
                            ''uppercase'' \<mapsto> PyBool uppercase,
                            ''lowercase'' \<mapsto> PyBool lowercase,
                            ''numbers'' \<mapsto> PyBool numbers)\<rparr>"

text \<open>The four fixed alphabets, as the literals of \<^verbatim>\<open>create_pool\<close>.\<close>

definition lowercase_letters :: string where
  "lowercase_letters = ''abcdefghijklmnopqrstuvwxyz''"

definition uppercase_letters :: string where
  "uppercase_letters = ''ABCDEFGHIJKLMNOPQRSTUVWXYZ''"

definition digit_chars :: string where
  "digit_chars = ''0123456789''"

definition symbol_chars :: string where
  "symbol_chars = ''!@#$%^&*()_+-=[]}{|;:,.<>/?''"

text \<open>
  A method of the generator returns the exception it raised, if any, together with the
  object as the method left it. \<open>and_then\<close> is the sequencing of two statements: the
  second one does not run when the first one raised.
\<close>

type_synonym 's stmt = "'s \<Rightarrow> py_error option \<times> 's"

definition and_then :: "'s stmt \<Rightarrow> 's stmt \<Rightarrow> 's stmt" where
  "and_then p q s = (case p s of (None, s') \<Rightarrow> q s' | (Some e, s') \<Rightarrow> (Some e, s'))"

text \<open>\<^verbatim>\<open>if self.prefs[key]: self.pool += chars\<close>; the lookup of a missing key raises.\<close>

definition add_class :: "string \<Rightarrow> string \<Rightarrow> generator stmt" where
  "add_class key chars g =
     (case prefs g key of
        None \<Rightarrow> (Some (KeyError key), g)
      | Some v \<Rightarrow> (None, if truthy v then g\<lparr>pool := pool g @ chars\<rparr> else g))"

definition reset_pool :: "generator stmt" where
  "reset_pool g = (None, g\<lparr>pool := ''''\<rparr>)"

definition create_pool :: "generator stmt" where
  "create_pool =
     and_then reset_pool
    (and_then (add_class ''lowercase'' lowercase_letters)
    (and_then (add_class ''uppercase'' uppercase_letters)
    (and_then (add_class ''numbers'' digit_chars)
              (add_class ''symbols'' symbol_chars))))"

text \<open>
  The loop of \<^verbatim>\<open>generate_password\<close>: \<open>k\<close> rounds are left, \<open>password\<close> is the string built
  so far. A draw that raises ends the loop with the exception and no password.
\<close>

fun draw_loop :: "entropy \<Rightarrow> string \<Rightarrow> nat \<Rightarrow> string \<Rightarrow> nat \<Rightarrow> (py_error + string) \<times> nat" where
  "draw_loop ent pl 0 password drawn = (Inr password, drawn)"
| "draw_loop ent pl (Suc k) password drawn =
     (case choice ent pl drawn of
        (Inl e, drawn') \<Rightarrow> (Inl e, drawn')
      | (Inr c, drawn') \<Rightarrow> draw_loop ent pl k (password @ [c]) drawn')"

definition generate_password :: "entropy \<Rightarrow> generator \<Rightarrow> nat \<Rightarrow> (py_error + string) \<times> nat" where
  "generate_password ent g drawn =
     (case prefs g ''length_input'' of
        None \<Rightarrow> (Inl (KeyError ''length_input''), drawn)
      | Some v \<Rightarrow> draw_loop ent (pool g) (range_len v) '''' drawn)"

section \<open>The spreadsheet\<close>

text \<open>
  \<^verbatim>\<open>save_excel\<close> works through pandas: a \<^verbatim>\<open>DataFrame\<close> has named columns and rows of
  cells, and a cell holds text or is missing (\<^verbatim>\<open>NaN\<close>). The row index is left out: the
  frames are written with \<^verbatim>\<open>index=False\<close> and joined with \<^verbatim>\<open>ignore_index=True\<close>.
\<close>

datatype cell = Text string | NaN

record dataframe =
  columns :: "string list"
  rows :: "cell list list"

text \<open>
  A file holds a workbook or something else (any content that the reader cannot open as
  a workbook). Of a workbook, the model keeps what the program reads and writes: the name
  of the first sheet, its header row, its data rows and the column widths that were set
  (first column, last column, width). A missing cell is an empty cell of the sheet.
\<close>

record workbook =
  sheet_name :: string
  header :: "string list"
  body :: "cell list list"
  column_widths :: "(nat \<times> nat \<times> nat) list"

datatype disk_file = Workbook workbook | NotWorkbook

type_synonym file_system = "string \<rightharpoonup> disk_file"

definition path_exists :: "file_system \<Rightarrow> string \<Rightarrow> bool" where
  "path_exists fs p = (fs p \<noteq> None)"

text \<open>
  \<^verbatim>\<open>pd.read_excel(path)\<close> is called with its defaults: it reads the first sheet, takes the
  first row as the column names, and, with \<^verbatim>\<open>keep_default_na=True\<close>, turns every text
  cell whose content is one of the default missing-value markers into \<^verbatim>\<open>NaN\<close>. The list
  is the one of the pandas documentation. Column names are taken as they stand: the
  renaming of empty and repeated names is not modelled. The reader's inference of numbers
  and truth values from text is not modelled either, so a text cell that is not a marker
  is read as it stands.
\<close>

definition default_na_values :: "string list" where
  "default_na_values =
     ['''', ''#N/A'', ''#N/A N/A'', ''#NA'', ''-1.#IND'', ''-1.#QNAN'', ''-NaN'', ''-nan'',
      ''1.#IND'', ''1.#QNAN'', ''<NA>'', ''N/A'', ''NA'', ''NULL'', ''NaN'', ''None'',
      ''n/a'', ''nan'', ''null'']"

fun read_cell :: "cell \<Rightarrow> cell" where
  "read_cell (Text s) = (if s \<in> set default_na_values then NaN else Text s)"
| "read_cell NaN = NaN"

definition read_excel :: "disk_file \<Rightarrow> py_error + dataframe" where
  "read_excel f =
     (case f of
        NotWorkbook \<Rightarrow> Inl ReadError
      | Workbook w \<Rightarrow> Inr \<lparr>columns = header w, rows = map (map read_cell) (body w)\<rparr>)"

text \<open>
  \<^verbatim>\<open>pd.concat([existing, df], ignore_index=True)\<close> joins on the union of the columns
  (those of the first frame, then the new ones of the second) and fills the cells that a
  frame does not have with \<^verbatim>\<open>NaN\<close>.
\<close>

definition reindex :: "string list \<Rightarrow> string list \<Rightarrow> cell list \<Rightarrow> cell list" where
  "reindex cols own r =
     map (\<lambda>c. case map_of (zip own r) c of None \<Rightarrow> NaN | Some v \<Rightarrow> v) cols"

definition concat_frames :: "dataframe \<Rightarrow> dataframe \<Rightarrow> dataframe" where
  "concat_frames a b =
     (let cols = columns a @ filter (\<lambda>c. c \<notin> set (columns a)) (columns b)
      in \<lparr>columns = cols,
          rows = map (reindex cols (columns a)) (rows a) @
                 map (reindex cols (columns b)) (rows b)\<rparr>)"

text \<open>\<^verbatim>\<open>df.to_excel(writer, index=False, sheet_name=name)\<close> and
  \<^verbatim>\<open>worksheet.set_column(first, last, width)\<close>. Every text cell is stored as the text it
  holds: what the writer does with a text that starts with \<^verbatim>\<open>=\<close>, with the empty text
  and with a text beyond the length limit of a cell is not modelled, nor are failures of
  the write itself (a full disk, a file that another program holds open).\<close>

definition to_excel :: "dataframe \<Rightarrow> string \<Rightarrow> workbook" where
  "to_excel df name =
     \<lparr>sheet_name = name, header = columns df, body = rows df, column_widths = []\<rparr>"

definition set_column :: "nat \<Rightarrow> nat \<Rightarrow> nat \<Rightarrow> workbook \<Rightarrow> workbook" where
  "set_column first_col last_col width wb =
     wb\<lparr>column_widths := column_widths wb @ [(first_col, last_col, width)]\<rparr>"

text \<open>\<^verbatim>\<open>str.upper\<close> on ASCII text: the letters a to z are mapped, every other character
  is kept. Letters outside ASCII, which Python also maps, are outside the model.\<close>

definition upper_char :: "char \<Rightarrow> char" where
  "upper_char c =
     (let n = (of_char c :: nat) in if 97 \<le> n \<and> n \<le> 122 then char_of (n - 32) else c)"

definition upper :: "string \<Rightarrow> string" where
  "upper s = map upper_char s"

definition file_path :: string where
  "file_path = ''passwords_sheet.xlsx''"

text \<open>
  \<^verbatim>\<open>PasswordGUI.save_excel\<close>. The workbook is written when the \<^verbatim>\<open>with\<close> block of the
  writer ends, after the frame and the widths have been set, so a read that raises leaves
  the file as it was.
\<close>

definition write_sheet :: "dataframe \<Rightarrow> disk_file" where
  "write_sheet df =
     Workbook (set_column 2 2 25 (set_column 1 1 35 (set_column 0 0 25
       (to_excel df ''Passwords''))))"

definition save_excel :: "string \<Rightarrow> string \<Rightarrow> string \<Rightarrow> file_system stmt" where
  "save_excel purpose password timestamp fs =
     (let df = \<lparr>columns = [''Purpose'', ''Password'', ''Timestamp''],
                rows = [[Text (upper purpose), Text password, Text timestamp]]\<rparr>
      in if \<not> path_exists fs file_path then (None, fs(file_path \<mapsto> write_sheet df))
         else (case read_excel (the (fs file_path)) of
                 Inl e \<Rightarrow> (Some e, fs)
               | Inr existing \<Rightarrow>
                   (let updated = concat_frames existing df
                    in (None, fs(file_path \<mapsto> write_sheet updated)))))"

section \<open>The button handler of \<open>PasswordGUI\<close>\<close>

text \<open>
  What one click reads from its surroundings: the outcome of
  \<^verbatim>\<open>int(self.length_entry.get())\<close> (\<open>None\<close> when it raises \<^verbatim>\<open>ValueError\<close>), the four
  check boxes, the answer of the purpose dialog (\<open>None\<close> when it is cancelled) and the
  formatted time of the clock.
\<close>

record inputs =
  length_entry :: "int option"
  lower_var :: bool
  upper_var :: bool
  num_var :: bool
  sym_var :: bool
  purpose_reply :: "string option"
  now :: string

record gui =
  generator :: generator
  result_label :: string
  files :: file_system
  drawn :: nat

definition gui_generate_password :: "entropy \<Rightarrow> inputs \<Rightarrow> gui stmt" where
  "gui_generate_password ent inp st =
     (case length_entry inp of
        None \<Rightarrow> (None, st\<lparr>result_label := ''Length has to be a number.''\<rparr>)
      | Some len \<Rightarrow>
          if len \<le> 0 then (None, st\<lparr>result_label := ''Length has to be positive.''\<rparr>)
          else
            (case create_pool (set_preferences (generator st) len (lower_var inp)
                                 (upper_var inp) (num_var inp) (sym_var inp)) of
               (Some e, g) \<Rightarrow> (Some e, st\<lparr>generator := g\<rparr>)
             | (None, g) \<Rightarrow>
                 if pool g = [] then
                   (None, st\<lparr>generator := g,
                             result_label := ''Select at least one character type.''\<rparr>)
                 else
                   (case generate_password ent g (drawn st) of
                      (Inl e, d) \<Rightarrow> (Some e, st\<lparr>generator := g, drawn := d\<rparr>)
                    | (Inr password, d) \<Rightarrow>
                        (let st' = st\<lparr>generator := g, drawn := d, result_label := password\<rparr>
                         in case purpose_reply inp of
                              None \<Rightarrow> (None, st')
                            | Some purpose \<Rightarrow>
                                if purpose = [] then (None, st')
                                else (case save_excel purpose password (now inp) (files st') of
                                        (r, fs) \<Rightarrow> (r, st'\<lparr>files := fs\<rparr>))))))"

section \<open>Notions used in the statements\<close>

text \<open>The pool that \<^verbatim>\<open>create_pool\<close> leaves when it runs after \<^verbatim>\<open>set_preferences\<close>, as in
  the button handler.\<close>

definition built_pool :: "generator \<Rightarrow> int \<Rightarrow> bool \<Rightarrow> bool \<Rightarrow> bool \<Rightarrow> bool \<Rightarrow> string" where
  "built_pool g len lo up nu sy = pool (snd (create_pool (set_preferences g len lo up nu sy)))"

text \<open>
  The table that the program itself writes: a workbook whose header is the three columns
  Purpose, Password, Timestamp and whose rows have three cells each.
\<close>

definition well_formed_table :: "disk_file \<Rightarrow> bool" where
  "well_formed_table f =
     (case f of
        NotWorkbook \<Rightarrow> False
      | Workbook w \<Rightarrow>
          header w = [''Purpose'', ''Password'', ''Timestamp''] \<and>
          list_all (\<lambda>r. length r = 3) (body w))"

section \<open>Properties of the generator\<close>

lemma choice_nonempty:
  "seq \<noteq> [] \<Longrightarrow> choice ent seq d = (Inr (seq ! (ent d mod length seq)), Suc d)"
  by (simp add: choice_def randbelow_def)

lemma choice_empty: "choice ent [] d = (Inl IndexError, d)"
  by (simp add: choice_def)

lemma draw_loop_nonempty:
  "pl \<noteq> [] \<Longrightarrow>
   draw_loop ent pl k password d =
     (Inr (password @ map (\<lambda>i. pl ! (ent (d + i) mod length pl)) [0..<k]), d + k)"
proof (induction k arbitrary: password d)
  case 0
  then show ?case by simp
next
  case (Suc k)
  have "map (\<lambda>i. pl ! (ent (d + i) mod length pl)) [0..<Suc k] =
        (pl ! (ent d mod length pl)) # map (\<lambda>i. pl ! (ent (Suc d + i) mod length pl)) [0..<k]"
    by (simp add: upt_conv_Cons map_Suc_upt [symmetric] del: upt_Suc)
  with Suc show ?case
    by (simp add: choice_nonempty del: upt_Suc)
qed

lemma draw_loop_empty: "draw_loop ent [] (Suc k) password d = (Inl IndexError, d)"
  by (simp add: choice_empty)

lemma create_pool_set_preferences:
  "create_pool (set_preferences g len lo up nu sy) =
     (None, (set_preferences g len lo up nu sy)
              \<lparr>pool := (if lo then lowercase_letters else '''') @
                       (if up then uppercase_letters else '''') @
                       (if nu then digit_chars else '''') @
                       (if sy then symbol_chars else '''')\<rparr>)"
  by (simp add: create_pool_def and_then_def reset_pool_def add_class_def set_preferences_def)

text \<open>
  Claim C1. With a non-empty pool and a stored length \<open>n \<ge> 1\<close>, \<^verbatim>\<open>generate_password\<close>
  returns a string of exactly \<open>n\<close> characters, each one a member of the pool, and the
  string is the sequence of the draws in the order in which they were made: its \<open>i\<close>-th
  character is the pool character that the \<open>i\<close>-th draw selected. This holds for every
  random source.
\<close>

theorem generate_password_length_members:
  assumes "pool g \<noteq> []" and "1 \<le> n" and "prefs g ''length_input'' = Some (PyInt n)"
  shows "\<exists>password.
           generate_password ent g d = (Inr password, d + nat n) \<and>
           length password = nat n \<and>
           (\<forall>c \<in> set password. c \<in> set (pool g)) \<and>
           password = map (\<lambda>i. pool g ! (ent (d + i) mod length (pool g))) [0..<nat n]"
proof -
  let ?pw = "map (\<lambda>i. pool g ! (ent (d + i) mod length (pool g))) [0..<nat n]"
  have run: "generate_password ent g d = (Inr ?pw, d + nat n)"
    using assms(1,3) by (simp add: generate_password_def draw_loop_nonempty)
  have mem: "\<forall>c \<in> set ?pw. c \<in> set (pool g)"
    using assms(1) by auto
  have len: "length ?pw = nat n"
    by simp
  from run mem len show ?thesis
    by blast
qed

theorem generate_password_length_members_witness:
  "pool \<lparr>prefs = [''length_input'' \<mapsto> PyInt 3], pool = ''ab''\<rparr> \<noteq> [] \<and> (1::int) \<le> 3 \<and>
   generate_password (\<lambda>i. i) \<lparr>prefs = [''length_input'' \<mapsto> PyInt 3], pool = ''ab''\<rparr> 0 =
     (Inr ''aba'', 3)"
  using generate_password_length_members
          [of "\<lparr>prefs = [''length_input'' \<mapsto> PyInt 3], pool = ''ab''\<rparr>" 3 "\<lambda>i. i" 0]
  by (auto simp: upt_conv_Cons)

lemma alphabets_distinct:
  "distinct (lowercase_letters @ uppercase_letters @ digit_chars @ symbol_chars)"
  by (simp add: lowercase_letters_def uppercase_letters_def digit_chars_def symbol_chars_def)

lemma alphabets_nonempty:
  "lowercase_letters \<noteq> []" "uppercase_letters \<noteq> []" "digit_chars \<noteq> []" "symbol_chars \<noteq> []"
  by (simp_all add: lowercase_letters_def uppercase_letters_def digit_chars_def symbol_chars_def)

lemma built_pool_eq:
  "built_pool g len lo up nu sy =
     (if lo then lowercase_letters else '''') @ (if up then uppercase_letters else '''') @
     (if nu then digit_chars else '''') @ (if sy then symbol_chars else '''')"
  by (simp add: built_pool_def create_pool_set_preferences)

text \<open>
  Claim C2. For every assignment of the four flags (and whatever the generator held
  before), \<^verbatim>\<open>create_pool\<close> returns without an exception and leaves as pool the
  concatenation, in the order lowercase letters, uppercase letters, digits, symbols, of
  the alphabets of the enabled classes. The pool contains every character of every
  enabled class and no character of a disabled class, it has no repeated character, and
  it is empty exactly when all four flags are false.
\<close>

theorem create_pool_enabled_classes:
  "fst (create_pool (set_preferences g len lo up nu sy)) = None \<and>
   built_pool g len lo up nu sy =
     (if lo then lowercase_letters else '''') @ (if up then uppercase_letters else '''') @
     (if nu then digit_chars else '''') @ (if sy then symbol_chars else '''') \<and>
   (lo \<longrightarrow> set lowercase_letters \<subseteq> set (built_pool g len lo up nu sy)) \<and>
   (up \<longrightarrow> set uppercase_letters \<subseteq> set (built_pool g len lo up nu sy)) \<and>
   (nu \<longrightarrow> set digit_chars \<subseteq> set (built_pool g len lo up nu sy)) \<and>
   (sy \<longrightarrow> set symbol_chars \<subseteq> set (built_pool g len lo up nu sy)) \<and>
   (\<not> lo \<longrightarrow> set lowercase_letters \<inter> set (built_pool g len lo up nu sy) = {}) \<and>
   (\<not> up \<longrightarrow> set uppercase_letters \<inter> set (built_pool g len lo up nu sy) = {}) \<and>
   (\<not> nu \<longrightarrow> set digit_chars \<inter> set (built_pool g len lo up nu sy) = {}) \<and>
   (\<not> sy \<longrightarrow> set symbol_chars \<inter> set (built_pool g len lo up nu sy) = {}) \<and>
   distinct (built_pool g len lo up nu sy) \<and>
   (built_pool g len lo up nu sy = [] \<longleftrightarrow> \<not> lo \<and> \<not> up \<and> \<not> nu \<and> \<not> sy)"
  using alphabets_distinct alphabets_nonempty
  unfolding built_pool_eq create_pool_set_preferences
  by (cases lo; cases up; cases nu; cases sy) auto

theorem create_pool_enabled_classes_witness:
  "fst (create_pool (set_preferences init_generator 8 True False True False)) = None \<and>
   built_pool init_generator 8 True False True False = lowercase_letters @ digit_chars \<and>
   set lowercase_letters \<subseteq> set (built_pool init_generator 8 True False True False) \<and>
   set digit_chars \<subseteq> set (built_pool init_generator 8 True False True False) \<and>
   set uppercase_letters \<inter> set (built_pool init_generator 8 True False True False) = {} \<and>
   set symbol_chars \<inter> set (built_pool init_generator 8 True False True False) = {} \<and>
   distinct (built_pool init_generator 8 True False True False) \<and>
   built_pool init_generator 8 True False True False \<noteq> []"
  using create_pool_enabled_classes [of init_generator 8 True False True False]
  by (simp (no_asm_use))

lemma generate_password_empty_pool:
  "pool g = [] \<Longrightarrow> prefs g ''length_input'' = Some (PyInt n) \<Longrightarrow> 1 \<le> n \<Longrightarrow>
   generate_password ent g d = (Inl IndexError, d)"
  by (cases "nat n") (simp_all add: generate_password_def choice_empty)

text \<open>
  Claim C4. With all four flags false and a length \<open>len \<ge> 1\<close> (the preferences of the
  specification have a positive length), \<^verbatim>\<open>create_pool\<close> leaves the empty pool, and
  \<^verbatim>\<open>generate_password\<close> on it raises the \<^verbatim>\<open>IndexError\<close> of \<^verbatim>\<open>secrets.choice\<close> at the
  first draw: it returns no password, not even a partial one, and no draw is consumed.
  The button handler does not get that far: it shows its message, generates nothing and
  leaves the files alone.
\<close>

theorem no_class_selected_fails:
  assumes "1 \<le> len"
  shows "fst (create_pool (set_preferences g len False False False False)) = None \<and>
         pool (snd (create_pool (set_preferences g len False False False False))) = [] \<and>
         generate_password ent (snd (create_pool (set_preferences g len False False False False))) d =
           (Inl IndexError, d) \<and>
         (length_entry inp = Some len \<and> \<not> lower_var inp \<and> \<not> upper_var inp \<and>
          \<not> num_var inp \<and> \<not> sym_var inp \<longrightarrow>
            fst (gui_generate_password ent inp st) = None \<and>
            result_label (snd (gui_generate_password ent inp st)) =
              ''Select at least one character type.'' \<and>
            files (snd (gui_generate_password ent inp st)) = files st \<and>
            drawn (snd (gui_generate_password ent inp st)) = drawn st)"
proof -
  let ?g = "snd (create_pool (set_preferences g len False False False False))"
  have a: "fst (create_pool (set_preferences g len False False False False)) = None"
    by (simp add: create_pool_set_preferences)
  have b: "pool ?g = []"
    by (simp add: create_pool_set_preferences)
  have l: "prefs ?g ''length_input'' = Some (PyInt len)"
    by (simp only: create_pool_set_preferences) (simp add: set_preferences_def)
  have c: "generate_password ent ?g d = (Inl IndexError, d)"
    by (rule generate_password_empty_pool [OF b l assms])
  have e: "length_entry inp = Some len \<and> \<not> lower_var inp \<and> \<not> upper_var inp \<and>
          \<not> num_var inp \<and> \<not> sym_var inp \<longrightarrow>
            fst (gui_generate_password ent inp st) = None \<and>
            result_label (snd (gui_generate_password ent inp st)) =
              ''Select at least one character type.'' \<and>
            files (snd (gui_generate_password ent inp st)) = files st \<and>
            drawn (snd (gui_generate_password ent inp st)) = drawn st"
    using assms by (simp add: gui_generate_password_def create_pool_set_preferences)
  from a b c e show ?thesis by blast
qed

theorem no_class_selected_fails_witness:
  "(1::int) \<le> 8 \<and>
   pool (snd (create_pool (set_preferences init_generator 8 False False False False))) = [] \<and>
   generate_password (\<lambda>i. i)
     (snd (create_pool (set_preferences init_generator 8 False False False False))) 0 =
     (Inl IndexError, 0) \<and>
   result_label (snd (gui_generate_password (\<lambda>i. i)
     \<lparr>length_entry = Some 8, lower_var = False, upper_var = False, num_var = False,
      sym_var = False, purpose_reply = Some ''email'', now = ''2024-01-01 00:00:00''\<rparr>
     \<lparr>generator = init_generator, result_label = '''', files = Map.empty, drawn = 0\<rparr>)) =
     ''Select at least one character type.''"
  using no_class_selected_fails [of 8 init_generator "\<lambda>i. i" 0
     "\<lparr>length_entry = Some 8, lower_var = False, upper_var = False, num_var = False,
      sym_var = False, purpose_reply = Some ''email'', now = ''2024-01-01 00:00:00''\<rparr>"
     "\<lparr>generator = init_generator, result_label = '''', files = Map.empty, drawn = 0\<rparr>"]
  by simp

text \<open>
  Claim C9. \<^verbatim>\<open>generate_password\<close> does not check the stored length: with the length 0 it
  returns the empty string for any pool, the empty one included, raises nothing and
  makes no draw.
\<close>

theorem zero_length_returns_empty:
  assumes "prefs g ''length_input'' = Some (PyInt 0)"
  shows "generate_password ent g d = (Inr '''', d)"
  using assms by (simp add: generate_password_def)

theorem zero_length_returns_empty_witness:
  "prefs \<lparr>prefs = [''length_input'' \<mapsto> PyInt 0], pool = ''''\<rparr> ''length_input'' = Some (PyInt 0) \<and>
   generate_password (\<lambda>i. i) \<lparr>prefs = [''length_input'' \<mapsto> PyInt 0], pool = ''''\<rparr> 5 = (Inr '''', 5)"
  using zero_length_returns_empty [of "\<lparr>prefs = [''length_input'' \<mapsto> PyInt 0], pool = ''''\<rparr>" "\<lambda>i. i" 5]
  by simp

lemma add_class_pool_update:
  "add_class key chars (g\<lparr>pool := p\<rparr>) =
     (case prefs g key of
        None \<Rightarrow> (Some (KeyError key), g\<lparr>pool := p\<rparr>)
      | Some v \<Rightarrow> (None, g\<lparr>pool := (if truthy v then p @ chars else p)\<rparr>))"
  by (simp add: add_class_def split: option.splits)

lemma create_pool_forgets_pool: "create_pool (g\<lparr>pool := p\<rparr>) = create_pool g"
  by (simp add: create_pool_def and_then_def reset_pool_def)

lemma create_pool_result:
  "\<exists>p. snd (create_pool g) = g\<lparr>pool := p\<rparr>"
  by (auto simp: create_pool_def and_then_def reset_pool_def add_class_pool_update
           split: option.splits)

lemma create_pool_twice: "create_pool (snd (create_pool g)) = create_pool g"
proof -
  obtain p where "snd (create_pool g) = g\<lparr>pool := p\<rparr>"
    using create_pool_result by blast
  then show ?thesis
    by (simp add: create_pool_forgets_pool)
qed

lemma create_pool_repeated:
  "((\<lambda>s. snd (create_pool s)) ^^ Suc n) g = snd (create_pool g)"
proof (induction n)
  case 0
  show ?case by simp
next
  case (Suc n)
  have "((\<lambda>s. snd (create_pool s)) ^^ Suc (Suc n)) g =
        snd (create_pool (((\<lambda>s. snd (create_pool s)) ^^ Suc n) g))"
    by simp
  also have "\<dots> = snd (create_pool (snd (create_pool g)))"
    by (simp only: Suc.IH)
  also have "\<dots> = snd (create_pool g)"
    by (simp only: create_pool_twice)
  finally show ?case .
qed

text \<open>
  Claim C10. \<^verbatim>\<open>create_pool\<close> starts by resetting the pool: its outcome does not depend on
  the pool that was stored before; after \<^verbatim>\<open>set_preferences\<close> the pool it leaves depends
  on the four flags only (not on the generator's earlier state, nor on the length); and
  calling it again, any number of times, leaves the generator as one call does.
\<close>

theorem create_pool_resets_and_is_idempotent:
  "create_pool (g\<lparr>pool := p\<rparr>) = create_pool g \<and>
   built_pool g len lo up nu sy = built_pool h len' lo up nu sy \<and>
   create_pool (snd (create_pool g)) = create_pool g \<and>
   ((\<lambda>s. snd (create_pool s)) ^^ Suc n) g = snd (create_pool g)"
  using create_pool_forgets_pool [where g = g and p = p] create_pool_twice [where g = g]
    create_pool_repeated [where n = n and g = g]
  by (simp add: built_pool_eq)

section \<open>Properties of the button handler\<close>

lemma generate_password_nonempty:
  "pool g \<noteq> [] \<Longrightarrow> prefs g ''length_input'' = Some v \<Longrightarrow>
   generate_password ent g d =
     (Inr (map (\<lambda>i. pool g ! (ent (d + i) mod length (pool g))) [0..<range_len v]),
      d + range_len v)"
  by (simp add: generate_password_def draw_loop_nonempty)

lemma create_pool_built_pool:
  "create_pool (set_preferences g len lo up nu sy) =
     (None, (set_preferences g len lo up nu sy)\<lparr>pool := built_pool g len lo up nu sy\<rparr>)"
  by (simp add: built_pool_eq create_pool_set_preferences)

lemma handler_generates:
  assumes "length_entry inp = Some len" and "1 \<le> len"
    and "built_pool (generator st) len (lower_var inp) (upper_var inp) (num_var inp) (sym_var inp) \<noteq> []"
    and "purpose_reply inp = None \<or> purpose_reply inp = Some ''''"
  shows "fst (gui_generate_password ent inp st) = None \<and>
         files (snd (gui_generate_password ent inp st)) = files st \<and>
         length (result_label (snd (gui_generate_password ent inp st))) = nat len"
proof -
  let ?bp = "built_pool (generator st) len (lower_var inp) (upper_var inp) (num_var inp) (sym_var inp)"
  let ?g = "(set_preferences (generator st) len (lower_var inp)
              (upper_var inp) (num_var inp) (sym_var inp))\<lparr>pool := ?bp\<rparr>"
  have l: "prefs ?g ''length_input'' = Some (PyInt len)"
    by (simp add: set_preferences_def)
  have ne: "pool ?g \<noteq> []"
    using assms(3) by simp
  note gp = generate_password_nonempty [OF ne l, of ent "drawn st"]
  show ?thesis
    unfolding gui_generate_password_def create_pool_built_pool
    using assms(1,2,4) ne
    by (auto simp: gp Let_def)
qed

text \<open>
  Claim C8. When the purpose dialog is cancelled or answered with the empty string, the
  handler saves nothing and raises nothing: whatever the other inputs are, it returns
  normally and the files are exactly as before. When a password was generated (a
  positive length and at least one class selected), the label holds a string of that
  length.
\<close>

theorem declined_purpose_saves_nothing:
  assumes "purpose_reply inp = None \<or> purpose_reply inp = Some ''''"
  shows "fst (gui_generate_password ent inp st) = None \<and>
         files (snd (gui_generate_password ent inp st)) = files st \<and>
         (length_entry inp = Some len \<and> 1 \<le> len \<and>
          (lower_var inp \<or> upper_var inp \<or> num_var inp \<or> sym_var inp) \<longrightarrow>
            length (result_label (snd (gui_generate_password ent inp st))) = nat len)"
proof (cases "length_entry inp")
  case None
  then show ?thesis
    by (simp add: gui_generate_password_def)
next
  case (Some n)
  show ?thesis
  proof (cases "n \<le> 0")
    case True
    with Some show ?thesis
      by (auto simp: gui_generate_password_def)
  next
    case False
    let ?bp = "built_pool (generator st) n (lower_var inp) (upper_var inp) (num_var inp) (sym_var inp)"
    show ?thesis
    proof (cases "?bp = []")
      case True
      then have flags: "\<not> lower_var inp \<and> \<not> upper_var inp \<and> \<not> num_var inp \<and> \<not> sym_var inp"
        using alphabets_nonempty by (auto simp: built_pool_eq split: if_splits)
      with Some False show ?thesis
        by (simp add: gui_generate_password_def create_pool_set_preferences)
    next
      case ne: False
      from False have "1 \<le> n" by simp
      from handler_generates [OF Some this ne assms, of ent] Some show ?thesis
        by simp
    qed
  qed
qed

theorem declined_purpose_saves_nothing_witness:
  "(purpose_reply \<lparr>length_entry = Some 3, lower_var = True, upper_var = False, num_var = False,
      sym_var = False, purpose_reply = None, now = ''2024-01-01 00:00:00''\<rparr> = None \<or>
    purpose_reply \<lparr>length_entry = Some 3, lower_var = True, upper_var = False, num_var = False,
      sym_var = False, purpose_reply = None, now = ''2024-01-01 00:00:00''\<rparr> = Some '''') \<and>
   fst (gui_generate_password (\<lambda>i. i)
     \<lparr>length_entry = Some 3, lower_var = True, upper_var = False, num_var = False,
      sym_var = False, purpose_reply = None, now = ''2024-01-01 00:00:00''\<rparr>
     \<lparr>generator = init_generator, result_label = '''', files = Map.empty, drawn = 0\<rparr>) = None \<and>
   files (snd (gui_generate_password (\<lambda>i. i)
     \<lparr>length_entry = Some 3, lower_var = True, upper_var = False, num_var = False,
      sym_var = False, purpose_reply = None, now = ''2024-01-01 00:00:00''\<rparr>
     \<lparr>generator = init_generator, result_label = '''', files = Map.empty, drawn = 0\<rparr>)) =
     Map.empty"
  using declined_purpose_saves_nothing
    [where inp = "\<lparr>length_entry = Some 3, lower_var = True, upper_var = False, num_var = False,
      sym_var = False, purpose_reply = None, now = ''2024-01-01 00:00:00''\<rparr>"
       and ent = "\<lambda>i. i"
       and st = "\<lparr>generator = init_generator, result_label = '''', files = Map.empty, drawn = 0\<rparr>"]
  by simp

section \<open>Properties of the spreadsheet\<close>

lemma save_excel_fresh:
  "fs file_path = None \<Longrightarrow>
   save_excel purpose password timestamp fs =
     (None, fs(file_path \<mapsto> Workbook
        \<lparr>sheet_name = ''Passwords'',
         header = [''Purpose'', ''Password'', ''Timestamp''],
         body = [[Text (upper purpose), Text password, Text timestamp]],
         column_widths = [(0, 0, 25), (1, 1, 35), (2, 2, 25)]\<rparr>))"
  by (simp add: save_excel_def path_exists_def write_sheet_def to_excel_def set_column_def)

lemma save_excel_unreadable:
  "fs file_path = Some NotWorkbook \<Longrightarrow>
   save_excel purpose password timestamp fs = (Some ReadError, fs)"
  by (simp add: save_excel_def path_exists_def read_excel_def)

lemma save_excel_workbook:
  "fs file_path = Some (Workbook w) \<Longrightarrow>
   save_excel purpose password timestamp fs =
     (None, fs(file_path \<mapsto> write_sheet
        (concat_frames \<lparr>columns = header w, rows = map (map read_cell) (body w)\<rparr>
           \<lparr>columns = [''Purpose'', ''Password'', ''Timestamp''],
            rows = [[Text (upper purpose), Text password, Text timestamp]]\<rparr>)))"
  by (simp add: save_excel_def path_exists_def read_excel_def)

lemma reindex_three:
  "length r = 3 \<Longrightarrow>
   reindex [''Purpose'', ''Password'', ''Timestamp''] [''Purpose'', ''Password'', ''Timestamp''] r = r"
proof -
  assume "length r = 3"
  then obtain a b c where "r = [a, b, c]"
    by (auto simp: eval_nat_numeral length_Suc_conv)
  then show ?thesis
    by (simp add: reindex_def)
qed

lemma concat_frames_three:
  assumes "columns a = [''Purpose'', ''Password'', ''Timestamp'']"
    and "\<forall>r \<in> set (rows a). length r = 3" and "length new = 3"
  shows "concat_frames a \<lparr>columns = [''Purpose'', ''Password'', ''Timestamp''], rows = [new]\<rparr> =
           \<lparr>columns = [''Purpose'', ''Password'', ''Timestamp''], rows = rows a @ [new]\<rparr>"
proof -
  have "map (reindex [''Purpose'', ''Password'', ''Timestamp'']
               [''Purpose'', ''Password'', ''Timestamp'']) (rows a) = rows a"
    using assms(2) by (intro map_idI) (simp add: reindex_three)
  moreover have "reindex [''Purpose'', ''Password'', ''Timestamp'']
                   [''Purpose'', ''Password'', ''Timestamp''] new = new"
    using assms(3) by (rule reindex_three)
  ultimately show ?thesis
    by (simp add: concat_frames_def assms(1))
qed

lemma save_excel_well_formed:
  assumes "fs file_path = Some (Workbook w)" and "well_formed_table (Workbook w)"
  shows "save_excel purpose password timestamp fs =
     (None, fs(file_path \<mapsto> Workbook
        \<lparr>sheet_name = ''Passwords'',
         header = [''Purpose'', ''Password'', ''Timestamp''],
         body = map (map read_cell) (body w) @
                [[Text (upper purpose), Text password, Text timestamp]],
         column_widths = [(0, 0, 25), (1, 1, 35), (2, 2, 25)]\<rparr>))"
proof -
  have h: "header w = [''Purpose'', ''Password'', ''Timestamp'']"
    and l: "\<forall>r \<in> set (body w). length r = 3"
    using assms(2) by (simp_all add: well_formed_table_def list_all_iff)
  have "concat_frames \<lparr>columns = header w, rows = map (map read_cell) (body w)\<rparr>
           \<lparr>columns = [''Purpose'', ''Password'', ''Timestamp''],
            rows = [[Text (upper purpose), Text password, Text timestamp]]\<rparr> =
        \<lparr>columns = [''Purpose'', ''Password'', ''Timestamp''],
         rows = map (map read_cell) (body w) @
                [[Text (upper purpose), Text password, Text timestamp]]\<rparr>"
    using h l by (intro concat_frames_three [THEN trans]) simp_all
  then show ?thesis
    unfolding save_excel_workbook [where fs = fs and w = w, OF assms(1)]
    by (simp add: write_sheet_def to_excel_def set_column_def)
qed

lemma built_pool_nonempty:
  "lo \<or> up \<or> nu \<or> sy \<Longrightarrow> built_pool g len lo up nu sy \<noteq> []"
  using alphabets_nonempty by (auto simp: built_pool_eq)

lemma handler_saves:
  assumes "length_entry inp = Some len" and "1 \<le> len"
    and "lower_var inp \<or> upper_var inp \<or> num_var inp \<or> sym_var inp"
    and "purpose_reply inp = Some p" and "p \<noteq> []"
  shows "\<exists>password st'.
           files st' = files st \<and>
           gui_generate_password ent inp st =
             (fst (save_excel p password (now inp) (files st)),
              st'\<lparr>files := snd (save_excel p password (now inp) (files st))\<rparr>)"
proof -
  let ?bp = "built_pool (generator st) len (lower_var inp) (upper_var inp) (num_var inp) (sym_var inp)"
  let ?g = "(set_preferences (generator st) len (lower_var inp)
              (upper_var inp) (num_var inp) (sym_var inp))\<lparr>pool := ?bp\<rparr>"
  let ?pw = "map (\<lambda>i. pool ?g ! (ent (drawn st + i) mod length (pool ?g))) [0..<range_len (PyInt len)]"
  have l: "prefs ?g ''length_input'' = Some (PyInt len)"
    by (simp add: set_preferences_def)
  have ne: "pool ?g \<noteq> []"
    using built_pool_nonempty [OF assms(3)] by simp
  note gp = generate_password_nonempty [OF ne l, of ent "drawn st"]
  have "gui_generate_password ent inp st =
          (fst (save_excel p ?pw (now inp) (files st)),
           (st\<lparr>generator := ?g, drawn := drawn st + range_len (PyInt len), result_label := ?pw\<rparr>)
             \<lparr>files := snd (save_excel p ?pw (now inp) (files st))\<rparr>)"
    unfolding gui_generate_password_def create_pool_built_pool
    using assms(1,2,4,5) ne
    by (simp add: gp Let_def split: prod.splits)
  moreover have "files (st\<lparr>generator := ?g, drawn := drawn st + range_len (PyInt len), result_label := ?pw\<rparr>) = files st"
    by simp
  ultimately show ?thesis
    by blast
qed

text \<open>
  Claim C6, as stated, fails: a file that is a readable workbook of another shape is not
  rejected. \<^verbatim>\<open>save_excel\<close> has no check of the columns; it joins the frames on the union
  of their columns and rewrites the file without raising.
\<close>

theorem wrong_shape_rewritten:
  "\<not> well_formed_table (Workbook \<lparr>sheet_name = ''Sheet1'', header = [''Site'', ''Login''],
        body = [[Text ''example.org'', Text ''bob'']], column_widths = []\<rparr>) \<and>
   save_excel ''email'' ''X7g!qT2z'' ''2024-01-01 00:00:00''
     [file_path \<mapsto> Workbook \<lparr>sheet_name = ''Sheet1'', header = [''Site'', ''Login''],
        body = [[Text ''example.org'', Text ''bob'']], column_widths = []\<rparr>] =
     (None, [file_path \<mapsto> Workbook
        \<lparr>sheet_name = ''Passwords'',
         header = [''Site'', ''Login'', ''Purpose'', ''Password'', ''Timestamp''],
         body = [[Text ''example.org'', Text ''bob'', NaN, NaN, NaN],
                 [NaN, NaN, Text ''EMAIL'', Text ''X7g!qT2z'', Text ''2024-01-01 00:00:00'']],
         column_widths = [(0, 0, 25), (1, 1, 35), (2, 2, 25)]\<rparr>])"
proof -
  have u: "upper ''email'' = ''EMAIL''"
    by code_simp
  show ?thesis
    by (simp add: well_formed_table_def save_excel_def path_exists_def read_excel_def
          concat_frames_def reindex_def write_sheet_def to_excel_def set_column_def u
          default_na_values_def)
qed

lemma reindex_length: "length (reindex cols own r) = length cols"
  by (simp add: reindex_def)

lemma save_excel_workbook_shape:
  assumes "fs file_path = Some (Workbook w)"
  shows "\<exists>w'. snd (save_excel purpose password timestamp fs) = fs(file_path \<mapsto> Workbook w') \<and>
           sheet_name w' = ''Passwords'' \<and>
           header w' = header w @
             filter (\<lambda>c. c \<notin> set (header w)) [''Purpose'', ''Password'', ''Timestamp''] \<and>
           length (body w') = Suc (length (body w)) \<and>
           (\<forall>r \<in> set (body w'). length r = length (header w')) \<and>
           column_widths w' = [(0, 0, 25), (1, 1, 35), (2, 2, 25)]"
proof -
  let ?df = "concat_frames \<lparr>columns = header w, rows = map (map read_cell) (body w)\<rparr>
           \<lparr>columns = [''Purpose'', ''Password'', ''Timestamp''],
            rows = [[Text (upper purpose), Text password, Text timestamp]]\<rparr>"
  let ?w' = "\<lparr>sheet_name = ''Passwords'', header = columns ?df, body = rows ?df,
             column_widths = [(0, 0, 25), (1, 1, 35), (2, 2, 25)]\<rparr>"
  have s: "snd (save_excel purpose password timestamp fs) = fs(file_path \<mapsto> Workbook ?w')"
    by (simp add: save_excel_workbook [where fs = fs and w = w, OF assms]
          write_sheet_def to_excel_def set_column_def)
  have h: "columns ?df = header w @
             filter (\<lambda>c. c \<notin> set (header w)) [''Purpose'', ''Password'', ''Timestamp'']"
    by (simp add: concat_frames_def Let_def)
  have n: "length (rows ?df) = Suc (length (body w))"
    by (simp add: concat_frames_def Let_def)
  have r: "\<forall>r \<in> set (rows ?df). length r = length (columns ?df)"
    by (auto simp: concat_frames_def Let_def reindex_length)
  from s h n r show ?thesis
    by (intro exI [of _ ?w']) simp
qed

text \<open>
  Claim C6, amended. When the file at the path cannot be read as a workbook,
  \<^verbatim>\<open>save_excel\<close> fails with the read error (the IOError-class condition of the
  specification) and leaves every file as it was; the handler does not catch the error,
  so a click that reaches the save ends with it and with the files unchanged. A readable
  workbook is never rejected for its shape: the call returns normally. When the column
  names of the workbook are distinct and not empty, the file is rewritten as the sheet
  \<^verbatim>\<open>Passwords\<close> whose columns are the existing columns followed by those of Purpose,
  Password, Timestamp that were not among them, with one row more than before, every row
  as long as the header, and no other file is touched.
\<close>

theorem unreadable_file_raises_and_is_kept:
  "(fs file_path = Some NotWorkbook \<longrightarrow>
      save_excel purpose password timestamp fs = (Some ReadError, fs)) \<and>
   (length_entry inp = Some len \<and> 1 \<le> len \<and>
    (lower_var inp \<or> upper_var inp \<or> num_var inp \<or> sym_var inp) \<and>
    purpose_reply inp = Some p \<and> p \<noteq> [] \<and> files st file_path = Some NotWorkbook \<longrightarrow>
      fst (gui_generate_password ent inp st) = Some ReadError \<and>
      files (snd (gui_generate_password ent inp st)) = files st) \<and>
   (fs file_path = Some (Workbook w) \<longrightarrow>
      fst (save_excel purpose password timestamp fs) = None) \<and>
   (fs file_path = Some (Workbook w) \<and> distinct (header w) \<and> [] \<notin> set (header w) \<longrightarrow>
      (\<exists>w'. snd (save_excel purpose password timestamp fs) = fs(file_path \<mapsto> Workbook w') \<and>
            sheet_name w' = ''Passwords'' \<and>
            header w' = header w @
              filter (\<lambda>c. c \<notin> set (header w)) [''Purpose'', ''Password'', ''Timestamp''] \<and>
            length (body w') = Suc (length (body w)) \<and>
            (\<forall>r \<in> set (body w'). length r = length (header w')) \<and>
            column_widths w' = [(0, 0, 25), (1, 1, 35), (2, 2, 25)]))"
proof (intro conjI impI)
  assume "fs file_path = Some NotWorkbook"
  then show "save_excel purpose password timestamp fs = (Some ReadError, fs)"
    by (rule save_excel_unreadable)
next
  assume a: "length_entry inp = Some len \<and> 1 \<le> len \<and>
    (lower_var inp \<or> upper_var inp \<or> num_var inp \<or> sym_var inp) \<and>
    purpose_reply inp = Some p \<and> p \<noteq> [] \<and> files st file_path = Some NotWorkbook"
  then obtain pw st' where f: "files st' = files st"
    and r: "gui_generate_password ent inp st =
             (fst (save_excel p pw (now inp) (files st)),
              st'\<lparr>files := snd (save_excel p pw (now inp) (files st))\<rparr>)"
    using handler_saves [where inp = inp and len = len and p = p and ent = ent and st = st]
    by blast
  have s: "save_excel p pw (now inp) (files st) = (Some ReadError, files st)"
    using a by (simp add: save_excel_unreadable)
  show "fst (gui_generate_password ent inp st) = Some ReadError"
    by (simp add: r s)
  show "files (snd (gui_generate_password ent inp st)) = files st"
    by (simp add: r s)
next
  assume w: "fs file_path = Some (Workbook w)"
  show "fst (save_excel purpose password timestamp fs) = None"
    by (simp add: save_excel_workbook [where fs = fs and w = w, OF w])
next
  assume "fs file_path = Some (Workbook w) \<and> distinct (header w) \<and> [] \<notin> set (header w)"
  then have w: "fs file_path = Some (Workbook w)"
    by simp
  show "\<exists>w'. snd (save_excel purpose password timestamp fs) = fs(file_path \<mapsto> Workbook w') \<and>
            sheet_name w' = ''Passwords'' \<and>
            header w' = header w @
              filter (\<lambda>c. c \<notin> set (header w)) [''Purpose'', ''Password'', ''Timestamp''] \<and>
            length (body w') = Suc (length (body w)) \<and>
            (\<forall>r \<in> set (body w'). length r = length (header w')) \<and>
            column_widths w' = [(0, 0, 25), (1, 1, 35), (2, 2, 25)]"
    by (rule save_excel_workbook_shape [where fs = fs and w = w, OF w])
qed

theorem unreadable_file_raises_and_is_kept_witness:
  "[file_path \<mapsto> NotWorkbook] file_path = Some NotWorkbook \<and>
   save_excel ''email'' ''X7g!qT2z'' ''2024-01-01 00:00:00'' [file_path \<mapsto> NotWorkbook] =
     (Some ReadError, [file_path \<mapsto> NotWorkbook]) \<and>
   fst (gui_generate_password (\<lambda>i. i)
     \<lparr>length_entry = Some 3, lower_var = True, upper_var = False, num_var = False,
      sym_var = False, purpose_reply = Some ''email'', now = ''2024-01-01 00:00:00''\<rparr>
     \<lparr>generator = init_generator, result_label = '''', files = [file_path \<mapsto> NotWorkbook],
      drawn = 0\<rparr>) = Some ReadError \<and>
   distinct [''Site'', ''Login''] \<and> [] \<notin> set [''Site'', ''Login''] \<and>
   fst (save_excel ''email'' ''X7g!qT2z'' ''2024-01-01 00:00:00''
     [file_path \<mapsto> Workbook \<lparr>sheet_name = ''Sheet1'', header = [''Site'', ''Login''],
        body = [[Text ''example.org'', Text ''bob'']], column_widths = []\<rparr>]) = None \<and>
   (\<exists>w'. snd (save_excel ''email'' ''X7g!qT2z'' ''2024-01-01 00:00:00''
       [file_path \<mapsto> Workbook \<lparr>sheet_name = ''Sheet1'', header = [''Site'', ''Login''],
          body = [[Text ''example.org'', Text ''bob'']], column_widths = []\<rparr>]) =
       [file_path \<mapsto> Workbook w'] \<and>
     header w' = [''Site'', ''Login'', ''Purpose'', ''Password'', ''Timestamp''] \<and>
     length (body w') = 2)"
proof -
  note t1 = unreadable_file_raises_and_is_kept
    [where fs = "[file_path \<mapsto> NotWorkbook]" and purpose = "''email''"
       and password = "''X7g!qT2z''" and timestamp = "''2024-01-01 00:00:00''"
       and inp = "\<lparr>length_entry = Some 3, lower_var = True, upper_var = False, num_var = False,
          sym_var = False, purpose_reply = Some ''email'', now = ''2024-01-01 00:00:00''\<rparr>"
       and len = 3 and p = "''email''" and ent = "\<lambda>i. i"
       and st = "\<lparr>generator = init_generator, result_label = '''',
          files = [file_path \<mapsto> NotWorkbook], drawn = 0\<rparr>"]
  note t2 = unreadable_file_raises_and_is_kept
    [where fs = "[file_path \<mapsto> Workbook \<lparr>sheet_name = ''Sheet1'', header = [''Site'', ''Login''],
        body = [[Text ''example.org'', Text ''bob'']], column_widths = []\<rparr>]"
       and w = "\<lparr>sheet_name = ''Sheet1'', header = [''Site'', ''Login''],
        body = [[Text ''example.org'', Text ''bob'']], column_widths = []\<rparr>"
       and purpose = "''email''"
       and password = "''X7g!qT2z''" and timestamp = "''2024-01-01 00:00:00''"
       and inp = "\<lparr>length_entry = Some 3, lower_var = True, upper_var = False, num_var = False,
          sym_var = False, purpose_reply = Some ''email'', now = ''2024-01-01 00:00:00''\<rparr>"
       and len = 3 and p = "''email''" and ent = "\<lambda>i. i"
       and st = "\<lparr>generator = init_generator, result_label = '''',
          files = [file_path \<mapsto> NotWorkbook], drawn = 0\<rparr>"]
  have a: "save_excel ''email'' ''X7g!qT2z'' ''2024-01-01 00:00:00'' [file_path \<mapsto> NotWorkbook] =
     (Some ReadError, [file_path \<mapsto> NotWorkbook])"
    using t1 by simp
  have b: "fst (gui_generate_password (\<lambda>i. i)
     \<lparr>length_entry = Some 3, lower_var = True, upper_var = False, num_var = False,
      sym_var = False, purpose_reply = Some ''email'', now = ''2024-01-01 00:00:00''\<rparr>
     \<lparr>generator = init_generator, result_label = '''', files = [file_path \<mapsto> NotWorkbook],
      drawn = 0\<rparr>) = Some ReadError"
    using t1 by simp
  have c: "fst (save_excel ''email'' ''X7g!qT2z'' ''2024-01-01 00:00:00''
     [file_path \<mapsto> Workbook \<lparr>sheet_name = ''Sheet1'', header = [''Site'', ''Login''],
        body = [[Text ''example.org'', Text ''bob'']], column_widths = []\<rparr>]) = None"
    using t2 by simp
  have d: "\<exists>w'. snd (save_excel ''email'' ''X7g!qT2z'' ''2024-01-01 00:00:00''
       [file_path \<mapsto> Workbook \<lparr>sheet_name = ''Sheet1'', header = [''Site'', ''Login''],
          body = [[Text ''example.org'', Text ''bob'']], column_widths = []\<rparr>]) =
       [file_path \<mapsto> Workbook w'] \<and>
     header w' = [''Site'', ''Login'', ''Purpose'', ''Password'', ''Timestamp''] \<and>
     length (body w') = 2"
    using t2 by (auto simp: numeral_2_eq_2)
  from a b c d show ?thesis
    by simp
qed

text \<open>The scenario of the specification: the first save to a path that does not exist.\<close>

lemma save_excel_email_scenario:
  "save_excel ''email'' ''X7g!qT2z'' ''2024-01-01 00:00:00'' Map.empty =
     (None, [file_path \<mapsto> Workbook
        \<lparr>sheet_name = ''Passwords'',
         header = [''Purpose'', ''Password'', ''Timestamp''],
         body = [[Text ''EMAIL'', Text ''X7g!qT2z'', Text ''2024-01-01 00:00:00'']],
         column_widths = [(0, 0, 25), (1, 1, 35), (2, 2, 25)]\<rparr>])"
proof -
  have u: "upper ''email'' = ''EMAIL''"
    by code_simp
  show ?thesis
    by (simp add: save_excel_fresh u)
qed

text \<open>
  Claim C3 at the records R1 = (\<^verbatim>\<open>n/a\<close>, \<^verbatim>\<open>X7g!qT2z\<close>, \<^verbatim>\<open>2024-01-01 00:00:00\<close>) and
  R2 = (\<^verbatim>\<open>bank\<close>, \<^verbatim>\<open>k3PQ9wzL\<close>, \<^verbatim>\<open>2024-01-02 00:00:00\<close>). The first save stores the
  purpose of R1 as the text \<^verbatim>\<open>N/A\<close>. The second save reads the table back through
  \<^verbatim>\<open>pd.read_excel\<close>, which takes that text for a missing value, and writes the row of R1
  with an empty Purpose cell: the table is then not [R1, R2] with the purposes in upper
  case.
\<close>

theorem round_trip_blanks_marker_purpose:
  "save_excel ''n/a'' ''X7g!qT2z'' ''2024-01-01 00:00:00'' Map.empty =
     (None, [file_path \<mapsto> Workbook
        \<lparr>sheet_name = ''Passwords'',
         header = [''Purpose'', ''Password'', ''Timestamp''],
         body = [[Text ''N/A'', Text ''X7g!qT2z'', Text ''2024-01-01 00:00:00'']],
         column_widths = [(0, 0, 25), (1, 1, 35), (2, 2, 25)]\<rparr>]) \<and>
   save_excel ''bank'' ''k3PQ9wzL'' ''2024-01-02 00:00:00''
     (snd (save_excel ''n/a'' ''X7g!qT2z'' ''2024-01-01 00:00:00'' Map.empty)) =
     (None, [file_path \<mapsto> Workbook
        \<lparr>sheet_name = ''Passwords'',
         header = [''Purpose'', ''Password'', ''Timestamp''],
         body = [[NaN, Text ''X7g!qT2z'', Text ''2024-01-01 00:00:00''],
                 [Text ''BANK'', Text ''k3PQ9wzL'', Text ''2024-01-02 00:00:00'']],
         column_widths = [(0, 0, 25), (1, 1, 35), (2, 2, 25)]\<rparr>])"
proof -
  have u: "upper ''n/a'' = ''N/A''" "upper ''bank'' = ''BANK''"
    by code_simp+
  have first: "save_excel ''n/a'' ''X7g!qT2z'' ''2024-01-01 00:00:00'' Map.empty =
     (None, [file_path \<mapsto> Workbook
        \<lparr>sheet_name = ''Passwords'',
         header = [''Purpose'', ''Password'', ''Timestamp''],
         body = [[Text ''N/A'', Text ''X7g!qT2z'', Text ''2024-01-01 00:00:00'']],
         column_widths = [(0, 0, 25), (1, 1, 35), (2, 2, 25)]\<rparr>])"
    by (simp add: save_excel_fresh u)
  show ?thesis
    unfolding first
    by (simp add: save_excel_well_formed well_formed_table_def u default_na_values_def)
qed

text \<open>
  Claim C5 at an existing well-formed table with the one row
  (\<^verbatim>\<open>NA\<close>, \<^verbatim>\<open>X7g!qT2z\<close>, \<^verbatim>\<open>2024-01-01 00:00:00\<close>) and the new record
  (\<^verbatim>\<open>bank\<close>, \<^verbatim>\<open>k3PQ9wzL\<close>, \<^verbatim>\<open>2024-01-02 00:00:00\<close>). The new record becomes the last
  row and the order is kept, but the existing row is not kept as it was: its Purpose
  cell is empty after the save.
\<close>

theorem append_blanks_marker_cell:
  "well_formed_table (Workbook
        \<lparr>sheet_name = ''Passwords'',
         header = [''Purpose'', ''Password'', ''Timestamp''],
         body = [[Text ''NA'', Text ''X7g!qT2z'', Text ''2024-01-01 00:00:00'']],
         column_widths = [(0, 0, 25), (1, 1, 35), (2, 2, 25)]\<rparr>) \<and>
   save_excel ''bank'' ''k3PQ9wzL'' ''2024-01-02 00:00:00''
     [file_path \<mapsto> Workbook
        \<lparr>sheet_name = ''Passwords'',
         header = [''Purpose'', ''Password'', ''Timestamp''],
         body = [[Text ''NA'', Text ''X7g!qT2z'', Text ''2024-01-01 00:00:00'']],
         column_widths = [(0, 0, 25), (1, 1, 35), (2, 2, 25)]\<rparr>] =
     (None, [file_path \<mapsto> Workbook
        \<lparr>sheet_name = ''Passwords'',
         header = [''Purpose'', ''Password'', ''Timestamp''],
         body = [[NaN, Text ''X7g!qT2z'', Text ''2024-01-01 00:00:00''],
                 [Text ''BANK'', Text ''k3PQ9wzL'', Text ''2024-01-02 00:00:00'']],
         column_widths = [(0, 0, 25), (1, 1, 35), (2, 2, 25)]\<rparr>])"
proof -
  have u: "upper ''bank'' = ''BANK''"
    by code_simp
  show ?thesis
    by (simp add: save_excel_well_formed well_formed_table_def u default_na_values_def)
qed

end
